theory Spec2Isabelle
  imports Complex_Main "HOL-Library.Char_ord" "HOL-Library.List_Lexorder"
begin

section \<open>Data model\<close>

text \<open>
  The canonical table is the pandas DataFrame built in \<^verbatim>\<open>main\<close> (app.py 41-48,
  app_no_auth.py 30-37) with the seven columns Date, Product, Region, Units Sold,
  Unit Price, Status and Rating. A table is the list of its rows in index order.
  Dates are day numbers, strings are Python strings, Units Sold and Rating are integers.
  Unit Price and every value computed from it are floats in the source; they are modelled
  by exact rationals, so rounding of binary floating point is outside the model.
\<close>

record row =
  Date :: int
  Product :: string
  Region :: string
  Units_Sold :: int
  Unit_Price :: rat
  Status :: string
  Rating :: int

text \<open>The filtered frame carries the eighth column Revenue (app.py 76).\<close>

record vrow = row +
  Revenue :: rat

section \<open>Filter engine\<close>

text \<open>
  \<^verbatim>\<open>df_filtered["Revenue"] = df_filtered["Units Sold"] * df_filtered["Unit Price"]\<close>,
  row by row.
\<close>

definition add_revenue :: "row \<Rightarrow> vrow" where
  "add_revenue r =
     \<lparr>Date = Date r, Product = Product r, Region = Region r, Units_Sold = Units_Sold r,
      Unit_Price = Unit_Price r, Status = Status r, Rating = Rating r,
      Revenue = of_int (Units_Sold r) * Unit_Price r\<rparr>"

text \<open>
  app.py 71-76. A Python list is false exactly when it is empty, so
  \<^verbatim>\<open>if selected_regions:\<close> is the test \<open>selected_regions \<noteq> []\<close>. Boolean-mask
  indexing keeps the rows whose mask is true, in order.
\<close>

definition data_processing :: "row list \<Rightarrow> string list \<Rightarrow> string \<Rightarrow> vrow list" where
  "data_processing sales_data selected_regions status_filter =
     (let df0 = sales_data;
          df1 = (if selected_regions \<noteq> []
                 then filter (\<lambda>r. Region r \<in> set selected_regions) df0 else df0);
          df2 = (if status_filter \<noteq> ''All''
                 then filter (\<lambda>r. Status r = status_filter) df1 else df1)
      in map add_revenue df2)"

text \<open>app_no_auth.py 81-91: the product filter comes first.\<close>

definition data_processing_no_auth ::
  "row list \<Rightarrow> string list \<Rightarrow> string list \<Rightarrow> string \<Rightarrow> vrow list" where
  "data_processing_no_auth sales_data selected_products selected_regions status_filter =
     (let df0 = sales_data;
          df1 = (if selected_products \<noteq> []
                 then filter (\<lambda>r. Product r \<in> set selected_products) df0 else df0);
          df2 = (if selected_regions \<noteq> []
                 then filter (\<lambda>r. Region r \<in> set selected_regions) df1 else df1);
          df3 = (if status_filter \<noteq> ''All''
                 then filter (\<lambda>r. Status r = status_filter) df2 else df2)
      in map add_revenue df3)"

section \<open>Aggregation engine\<close>

datatype py_error = ZeroDivisionError | IndexError

text \<open>
  A float result is either a number or NaN. \<^verbatim>\<open>Series.mean()\<close> of pandas returns NaN
  for a series without values and the arithmetic mean otherwise.
\<close>

datatype pyfloat = NaN | Fin rat

definition series_mean :: "int list \<Rightarrow> pyfloat" where
  "series_mean xs =
     (if xs = [] then NaN else Fin (of_int (sum_list xs) / of_nat (length xs)))"

text \<open>Python's \<^verbatim>\<open>/\<close> on two lengths: it raises when the divisor is zero.\<close>

definition true_div :: "nat \<Rightarrow> nat \<Rightarrow> py_error + rat" where
  "true_div a b = (if b = 0 then Inl ZeroDivisionError else Inr (of_nat a / of_nat b))"

text \<open>app.py 84-87 (app_no_auth.py 99-102).\<close>

definition total_revenue :: "vrow list \<Rightarrow> rat" where
  "total_revenue df_filtered = sum_list (map Revenue df_filtered)"

definition total_units :: "vrow list \<Rightarrow> int" where
  "total_units df_filtered = sum_list (map Units_Sold df_filtered)"

definition avg_rating :: "vrow list \<Rightarrow> pyfloat" where
  "avg_rating df_filtered = series_mean (map Rating df_filtered)"

definition completion_rate :: "vrow list \<Rightarrow> py_error + rat" where
  "completion_rate df_filtered =
     (if length df_filtered > 0
      then (case true_div (length (filter (\<lambda>r. Status r = ''Completed'') df_filtered))
                          (length df_filtered) of
              Inl e \<Rightarrow> Inl e
            | Inr q \<Rightarrow> Inr (q * 100))
      else Inr 0)"

text \<open>
  app.py 138: \<^verbatim>\<open>groupby("Product")["Revenue"].sum().sort_values(ascending=False).head(5)\<close>.
  \<^verbatim>\<open>groupby\<close> sorts the group keys (its default \<^verbatim>\<open>sort=True\<close>), so the grouped
  series lists the distinct products in ascending string order, each with the sum of its
  revenues.
\<close>

definition groupby_product_revenue_sum :: "vrow list \<Rightarrow> (string \<times> rat) list" where
  "groupby_product_revenue_sum df =
     map (\<lambda>p. (p, sum_list (map Revenue (filter (\<lambda>r. Product r = p) df))))
         (sort (remdups (map Product df)))"

text \<open>
  \<^verbatim>\<open>sort_values(ascending=False)\<close> arranges the series by descending value with the
  default algorithm of pandas (\<^verbatim>\<open>kind='quicksort'\<close>), which is not stable: the order
  it leaves among entries of equal value is open. That order is a parameter here, the
  rank \<open>tie\<close> of each product name: the entries come by descending value, and entries of
  equal value by ascending rank. Every arrangement by descending value is the result for
  some rank (the position of each entry in that arrangement).
\<close>

definition sort_values_descending ::
  "(string \<Rightarrow> nat) \<Rightarrow> (string \<times> rat) list \<Rightarrow> (string \<times> rat) list" where
  "sort_values_descending tie s = sort_key (\<lambda>e. - snd e) (sort_key (\<lambda>e. tie (fst e)) s)"

definition top_products :: "(string \<Rightarrow> nat) \<Rightarrow> nat \<Rightarrow> vrow list \<Rightarrow> (string \<times> rat) list" where
  "top_products tie n df =
     take n (sort_values_descending tie (groupby_product_revenue_sum df))"

section \<open>Edit reconciler\<close>

text \<open>
  The table that the session holds and that the grid editors return is a DataFrame with
  its row labels and the dtypes of its seven columns besides the rows.
  \<^verbatim>\<open>pd.DataFrame(data)\<close> (app.py 48) labels the rows 0, 1, 2, ... and takes the dtypes
  of the generated columns.
\<close>

datatype dtype = Datetime | Object | Integer | Floating

record table =
  labels :: "int list"
  dtypes :: "dtype list"
  body :: "row list"

definition DataFrame :: "row list \<Rightarrow> table" where
  "DataFrame data =
     \<lparr>labels = map int [0..<length data],
      dtypes = [Datetime, Object, Object, Integer, Floating, Object, Integer],
      body = data\<rparr>"

text \<open>
  \<^verbatim>\<open>DataFrame.equals\<close>: the same row labels, the same dtype in every column and the
  same value in every cell. The columns themselves are the same seven in every table.
\<close>

definition df_equals :: "table \<Rightarrow> table \<Rightarrow> bool" where
  "df_equals a b = (labels a = labels b \<and> dtypes a = dtypes b \<and> body a = body b)"

text \<open>
  app.py 123-125 and 129-131: \<^verbatim>\<open>if not edited.equals(sales_data): sales_data = edited;
  st.rerun()\<close>. The result is the pair of the change flag and the table the session
  holds afterwards.
\<close>

definition reconcile :: "table \<Rightarrow> table \<Rightarrow> bool \<times> table" where
  "reconcile canonical edited =
     (if \<not> df_equals edited canonical then (True, edited) else (False, canonical))"

section \<open>Widgets and the pass\<close>

text \<open>
  The inputs of one pass: what the sidebar widgets and the two grid editors return, and
  the rank by which the sort of the library orders equal values in this pass. An editor
  is given the canonical table and returns it with the user's edits applied.
\<close>

record inputs =
  selected_products :: "string list"
  selected_regions :: "string list"
  status_choice :: nat
  show_raw_data :: bool
  edited_df :: "table \<Rightarrow> table"
  edited_df_new :: "table \<Rightarrow> table"
  export_clicked :: bool
  tie_order :: "string \<Rightarrow> nat"

text \<open>app.py 63: \<^verbatim>\<open>st.radio("Order Status", ["All", "Completed", "Pending"])\<close>.\<close>

definition status_options :: "string list" where
  "status_options = [''All'', ''Completed'', ''Pending'']"

text \<open>The radio widget returns the option at the chosen index.\<close>

definition radio :: "string list \<Rightarrow> nat \<Rightarrow> py_error + string" where
  "radio options i = (if i < length options then Inr (options ! i) else Inl IndexError)"

text \<open>
  The session state: \<^verbatim>\<open>sales_data\<close> is absent (\<open>None\<close>) until the first pass;
  \<^verbatim>\<open>authentication_status\<close> is True, False or None.
\<close>

record session_state =
  sales_data :: "table option"
  authentication_status :: "bool option"

record dashboard =
  n_transactions :: nat
  metric_total_revenue :: rat
  metric_total_units :: int
  metric_avg_rating :: pyfloat
  metric_completion_rate :: rat
  top5 :: "(string \<times> rat) list"
  csv :: "vrow list option"

datatype outcome = Rendered dashboard | Rerun | Raised py_error

text \<open>
  app.py 110-131: the two editors, in order, when the raw data tab is shown. The result
  is the new canonical table when an editor's snapshot differs (the pass then stops with
  \<^verbatim>\<open>st.rerun()\<close>), and \<open>None\<close> when nothing changed.
\<close>

definition editor_tabs :: "inputs \<Rightarrow> table \<Rightarrow> table option" where
  "editor_tabs inp d =
     (if show_raw_data inp
      then (case reconcile d (edited_df inp d) of
              (True, d') \<Rightarrow> Some d'
            | (False, _) \<Rightarrow>
                (case reconcile d (edited_df_new inp d) of
                   (True, d') \<Rightarrow> Some d'
                 | (False, _) \<Rightarrow> None))
      else None)"

text \<open>What a pass does once \<^verbatim>\<open>df_filtered\<close> is computed (app.py 80-156).\<close>

definition render ::
  "inputs \<Rightarrow> session_state \<Rightarrow> table \<Rightarrow> vrow list \<Rightarrow> session_state \<times> outcome" where
  "render inp st d df_filtered =
     (case completion_rate df_filtered of
        Inl e \<Rightarrow> (st, Raised e)
      | Inr rate \<Rightarrow>
          (case editor_tabs inp d of
             Some d' \<Rightarrow> (st\<lparr>sales_data := Some d'\<rparr>, Rerun)
           | None \<Rightarrow>
               (st, Rendered
                  \<lparr>n_transactions = length df_filtered,
                   metric_total_revenue = total_revenue df_filtered,
                   metric_total_units = total_units df_filtered,
                   metric_avg_rating = avg_rating df_filtered,
                   metric_completion_rate = rate,
                   top5 = top_products (tie_order inp) 5 df_filtered,
                   csv = (if export_clicked inp then Some df_filtered else None)\<rparr>)))"

text \<open>
  \<^verbatim>\<open>main\<close> of app.py. The seed rows are the randomly generated ones of lines 38-47,
  made a DataFrame and stored only when the session has no table. The filters and the
  key figures read the rows of the table.
\<close>

definition main :: "row list \<Rightarrow> inputs \<Rightarrow> session_state \<Rightarrow> session_state \<times> outcome" where
  "main seed inp st =
     (let d = (case sales_data st of None \<Rightarrow> DataFrame seed | Some d \<Rightarrow> d);
          st1 = st\<lparr>sales_data := Some d\<rparr>
      in case radio status_options (status_choice inp) of
           Inl e \<Rightarrow> (st1, Raised e)
         | Inr status_filter \<Rightarrow>
             render inp st1 d
               (data_processing (body d) (selected_regions inp) status_filter))"

text \<open>\<^verbatim>\<open>main\<close> of app_no_auth.py.\<close>

definition main_no_auth :: "row list \<Rightarrow> inputs \<Rightarrow> session_state \<Rightarrow> session_state \<times> outcome" where
  "main_no_auth seed inp st =
     (let d = (case sales_data st of None \<Rightarrow> DataFrame seed | Some d \<Rightarrow> d);
          st1 = st\<lparr>sales_data := Some d\<rparr>
      in case radio status_options (status_choice inp) of
           Inl e \<Rightarrow> (st1, Raised e)
         | Inr status_filter \<Rightarrow>
             render inp st1 d
               (data_processing_no_auth (body d) (selected_products inp)
                  (selected_regions inp) status_filter))"

section \<open>Session gate\<close>

text \<open>
  app.py 171-176: the script after \<^verbatim>\<open>authenticator.login()\<close> has set
  \<^verbatim>\<open>authentication_status\<close>.
\<close>

datatype screen = Main_ran outcome | St_error string | St_warning string | Blank

definition script :: "row list \<Rightarrow> inputs \<Rightarrow> session_state \<Rightarrow> session_state \<times> screen" where
  "script seed inp st =
     (if authentication_status st = Some True
      then (case main seed inp st of (st', out) \<Rightarrow> (st', Main_ran out))
      else if authentication_status st = Some False
      then (st, St_error ''Username/password is incorrect'')
      else if authentication_status st = None
      then (st, St_warning ''Please enter your username and password'')
      else (st, Blank))"

section \<open>Frames as objects\<close>

text \<open>
  Lines 71-76 of app.py once more, with DataFrames as objects in a store, to follow which
  object each statement reads and writes; \<open>canonical\<close> is the address of the table held
  in the session state. A frame has the seven canonical columns, or
  those and Revenue. \<^verbatim>\<open>.copy()\<close> and boolean-mask indexing create a new object;
  \<^verbatim>\<open>df["Revenue"] = ...\<close> writes into the object that \<^verbatim>\<open>df\<close> names.
\<close>

datatype frame = Cols7 "row list" | Cols8 "vrow list"

type_synonym store = "frame list"

definition new_object :: "frame \<Rightarrow> store \<Rightarrow> nat \<times> store" where
  "new_object f h = (length h, h @ [f])"

fun mask_region :: "string list \<Rightarrow> frame \<Rightarrow> frame" where
  "mask_region sel (Cols7 rs) = Cols7 (filter (\<lambda>r. Region r \<in> set sel) rs)"
| "mask_region sel (Cols8 vs) = Cols8 (filter (\<lambda>r. Region r \<in> set sel) vs)"

fun mask_product :: "string list \<Rightarrow> frame \<Rightarrow> frame" where
  "mask_product sel (Cols7 rs) = Cols7 (filter (\<lambda>r. Product r \<in> set sel) rs)"
| "mask_product sel (Cols8 vs) = Cols8 (filter (\<lambda>r. Product r \<in> set sel) vs)"

fun mask_status :: "string \<Rightarrow> frame \<Rightarrow> frame" where
  "mask_status s (Cols7 rs) = Cols7 (filter (\<lambda>r. Status r = s) rs)"
| "mask_status s (Cols8 vs) = Cols8 (filter (\<lambda>r. Status r = s) vs)"

text \<open>Assigning the Revenue column adds it, or overwrites the one that is there.\<close>

fun set_revenue :: "frame \<Rightarrow> frame" where
  "set_revenue (Cols7 rs) = Cols8 (map add_revenue rs)"
| "set_revenue (Cols8 vs) = Cols8 (map (\<lambda>v. add_revenue (row.truncate v)) vs)"

definition data_processing_store ::
  "store \<Rightarrow> nat \<Rightarrow> string list \<Rightarrow> string \<Rightarrow> nat \<times> store" where
  "data_processing_store h canonical sel_regions status_filter =
     (case new_object (h ! canonical) h of (a0, h0) \<Rightarrow>
      case (if sel_regions \<noteq> []
            then new_object (mask_region sel_regions (h0 ! a0)) h0
            else (a0, h0)) of (a1, h1) \<Rightarrow>
      case (if status_filter \<noteq> ''All''
            then new_object (mask_status status_filter (h1 ! a1)) h1
            else (a1, h1)) of (a2, h2) \<Rightarrow>
      (a2, h2[a2 := set_revenue (h2 ! a2)]))"

definition data_processing_no_auth_store ::
  "store \<Rightarrow> nat \<Rightarrow> string list \<Rightarrow> string list \<Rightarrow> string \<Rightarrow> nat \<times> store" where
  "data_processing_no_auth_store h canonical sel_products sel_regions status_filter =
     (case new_object (h ! canonical) h of (a0, h0) \<Rightarrow>
      case (if sel_products \<noteq> []
            then new_object (mask_product sel_products (h0 ! a0)) h0
            else (a0, h0)) of (a1, h1) \<Rightarrow>
      case (if sel_regions \<noteq> []
            then new_object (mask_region sel_regions (h1 ! a1)) h1
            else (a1, h1)) of (a2, h2) \<Rightarrow>
      case (if status_filter \<noteq> ''All''
            then new_object (mask_status status_filter (h2 ! a2)) h2
            else (a2, h2)) of (a3, h3) \<Rightarrow>
      (a3, h3[a3 := set_revenue (h3 ! a3)]))"

section \<open>The predicate as the specification words it\<close>

text \<open>
  The specification's filter predicate for the variant with a region filter only: the
  row's region is among the selected regions, and the status filter is All or equals the
  row's status. It is compared below with what \<open>data_processing\<close> keeps.
\<close>

definition claimed_predicate :: "string list \<Rightarrow> string \<Rightarrow> row \<Rightarrow> bool" where
  "claimed_predicate regs s r = (Region r \<in> set regs \<and> (s = ''All'' \<or> Status r = s))"

text \<open>
  The specification's equality check of the reconciler: the same row count and the same
  values in the same order and fields. It is compared below with \<open>df_equals\<close>.
\<close>

definition claimed_structural_equality :: "table \<Rightarrow> table \<Rightarrow> bool" where
  "claimed_structural_equality a b = (body a = body b)"

text \<open>
  The specification's order of the top products: entries of equal total revenue come in
  the order in which their products first appear in the view.
\<close>

fun first_seen :: "string \<Rightarrow> vrow list \<Rightarrow> nat" where
  "first_seen p [] = 0"
| "first_seen p (r # rs) = (if Product r = p then 0 else Suc (first_seen p rs))"

fun claimed_tie_break :: "vrow list \<Rightarrow> (string \<times> rat) list \<Rightarrow> bool" where
  "claimed_tie_break df [] = True"
| "claimed_tie_break df (e # es) =
     (list_all (\<lambda>e'. if snd e' = snd e then first_seen (fst e) df < first_seen (fst e') df
                      else True) es
      \<and> claimed_tie_break df es)"

section \<open>Sample data\<close>

definition sample_row :: "string \<Rightarrow> string \<Rightarrow> int \<Rightarrow> rat \<Rightarrow> string \<Rightarrow> int \<Rightarrow> row" where
  "sample_row p g u c s k =
     \<lparr>Date = 0, Product = p, Region = g, Units_Sold = u, Unit_Price = c, Status = s,
      Rating = k\<rparr>"

text \<open>The example of the specification: products A and B with revenue 300, C with 100.\<close>

definition sample_abc :: "row list" where
  "sample_abc =
     [sample_row ''A'' ''North'' 3 100 ''Completed'' 5,
      sample_row ''B'' ''South'' 1 300 ''Pending'' 4,
      sample_row ''C'' ''North'' 2 50 ''Cancelled'' 3]"

text \<open>
  A view of four products: A and B with revenue 100, C and D with 200.
\<close>

definition sample_abcd :: "row list" where
  "sample_abcd =
     [sample_row ''A'' ''North'' 1 100 ''Completed'' 5,
      sample_row ''B'' ''North'' 1 100 ''Completed'' 5,
      sample_row ''C'' ''North'' 1 200 ''Completed'' 5,
      sample_row ''D'' ''North'' 1 200 ''Completed'' 5]"

text \<open>A rank that puts D before C before B before A among equal totals.\<close>

definition sample_rank :: "string \<Rightarrow> nat" where
  "sample_rank p = (if p = ''D'' then 0 else if p = ''C'' then 1 else if p = ''B'' then 2 else 3)"

text \<open>The rank that leaves equal totals in the order of the grouped series.\<close>

definition keep_order :: "string \<Rightarrow> nat" where
  "keep_order p = 0"

definition sample_inputs :: inputs where
  "sample_inputs =
     \<lparr>selected_products = [], selected_regions = [''North''], status_choice = 1,
      show_raw_data = True, edited_df = (\<lambda>d. d), edited_df_new = (\<lambda>d. d),
      export_clicked = False, tie_order = keep_order\<rparr>"


section \<open>Filtering\<close>

lemma data_processing_filter:
  "data_processing D regs s =
     map add_revenue
       (filter (\<lambda>r. (regs = [] \<or> Region r \<in> set regs) \<and> (s = ''All'' \<or> Status r = s)) D)"
  by (simp add: data_processing_def Let_def)

lemma data_processing_no_auth_filter:
  "data_processing_no_auth D prods regs s =
     map add_revenue
       (filter (\<lambda>r. (prods = [] \<or> Product r \<in> set prods) \<and>
                    (regs = [] \<or> Region r \<in> set regs) \<and>
                    (s = ''All'' \<or> Status r = s)) D)"
  by (simp add: data_processing_no_auth_def Let_def conj_commute)

lemma truncate_add_revenue: "row.truncate (add_revenue r) = r"
  by (simp add: add_revenue_def row.truncate_def)

lemma add_revenue_eq_iff: "add_revenue r = add_revenue r' \<longleftrightarrow> r = r'"
  by (metis truncate_add_revenue)

lemma add_revenue_cols:
  "Region (add_revenue r) = Region r" "Product (add_revenue r) = Product r"
  "Status (add_revenue r) = Status r" "Units_Sold (add_revenue r) = Units_Sold r"
  "Unit_Price (add_revenue r) = Unit_Price r" "Rating (add_revenue r) = Rating r"
  "Revenue (add_revenue r) = of_int (Units_Sold r) * Unit_Price r"
  by (simp_all add: add_revenue_def)

subsection \<open>Empty selections\<close>

text \<open>
  With no region selected and status All, a table of one row gives a view of one row:
  the region test of line 72 is skipped, it does not exclude every row.
\<close>

theorem empty_selection_counterexample:
  "data_processing [sample_row ''Laptop'' ''North'' 2 50 ''Completed'' 4] [] ''All'' \<noteq> []"
  by (simp add: data_processing_def)

text \<open>
  C1 (as amended). An empty selection of regions, or of products in the variant without
  login, switches that filter off: the view is the one that the remaining filters give.
  With no region selected the view holds every row that passes the status filter; with
  no product selected the variant without login gives the view of the region and status
  filters alone; with no region selected it gives the view of the product and status
  filters alone.
\<close>

theorem empty_selection_skips_filter:
  "data_processing D [] s = map add_revenue (filter (\<lambda>r. s = ''All'' \<or> Status r = s) D) \<and>
   data_processing_no_auth D [] regs s = data_processing D regs s \<and>
   data_processing_no_auth D prods [] s =
     map add_revenue
       (filter (\<lambda>r. (prods = [] \<or> Product r \<in> set prods) \<and> (s = ''All'' \<or> Status r = s)) D)"
  by (simp add: data_processing_filter data_processing_no_auth_filter)

theorem empty_selection_skips_filter_witness:
  "data_processing [sample_row ''Laptop'' ''North'' 2 50 ''Completed'' 4,
                    sample_row ''Mouse'' ''South'' 1 20 ''Pending'' 3] [] ''Pending''
     = [add_revenue (sample_row ''Mouse'' ''South'' 1 20 ''Pending'' 3)]"
  using empty_selection_skips_filter
    [of "[sample_row ''Laptop'' ''North'' 2 50 ''Completed'' 4,
          sample_row ''Mouse'' ''South'' 1 20 ''Pending'' 3]" "''Pending''" "[]" "[]"]
  by (simp add: sample_row_def)

subsection \<open>The rows of the view\<close>

text \<open>
  With no region selected, the only row of the table is in the view although its region
  is not among the selected regions.
\<close>

theorem view_predicate_counterexample:
  "add_revenue (sample_row ''Laptop'' ''North'' 2 50 ''Completed'' 4)
     \<in> set (data_processing [sample_row ''Laptop'' ''North'' 2 50 ''Completed'' 4] [] ''All'') \<and>
   \<not> claimed_predicate [] ''All'' (sample_row ''Laptop'' ''North'' 2 50 ''Completed'' 4)"
  by (simp add: data_processing_def claimed_predicate_def)

text \<open>
  C2 (as amended). The view is the canonical table, in its order, restricted to the rows
  that satisfy the predicate. Every row of the view, without its Revenue, is a row of the
  canonical table, and a canonical row is in the view exactly when: no region is selected or its
  region is selected, no product is selected or its product is selected (where there is
  a product filter), and the status filter is All or equals its status.
\<close>

theorem view_rows_by_predicate:
  "data_processing D regs s =
     map add_revenue
       (filter (\<lambda>r. (regs = [] \<or> Region r \<in> set regs) \<and> (s = ''All'' \<or> Status r = s)) D) \<and>
   data_processing_no_auth D prods regs s =
     map add_revenue
       (filter (\<lambda>r. (prods = [] \<or> Product r \<in> set prods) \<and>
                    (regs = [] \<or> Region r \<in> set regs) \<and>
                    (s = ''All'' \<or> Status r = s)) D) \<and>
   (\<forall>v \<in> set (data_processing D regs s). row.truncate v \<in> set D) \<and>
   (\<forall>r \<in> set D. add_revenue r \<in> set (data_processing D regs s) \<longleftrightarrow>
       (regs = [] \<or> Region r \<in> set regs) \<and> (s = ''All'' \<or> Status r = s)) \<and>
   (\<forall>v \<in> set (data_processing_no_auth D prods regs s). row.truncate v \<in> set D) \<and>
   (\<forall>r \<in> set D. add_revenue r \<in> set (data_processing_no_auth D prods regs s) \<longleftrightarrow>
       (prods = [] \<or> Product r \<in> set prods) \<and> (regs = [] \<or> Region r \<in> set regs) \<and>
       (s = ''All'' \<or> Status r = s))"
proof -
  have "(\<forall>v \<in> set (data_processing D regs s). row.truncate v \<in> set D) \<and>
   (\<forall>r \<in> set D. add_revenue r \<in> set (data_processing D regs s) \<longleftrightarrow>
       (regs = [] \<or> Region r \<in> set regs) \<and> (s = ''All'' \<or> Status r = s)) \<and>
   (\<forall>v \<in> set (data_processing_no_auth D prods regs s). row.truncate v \<in> set D) \<and>
   (\<forall>r \<in> set D. add_revenue r \<in> set (data_processing_no_auth D prods regs s) \<longleftrightarrow>
       (prods = [] \<or> Product r \<in> set prods) \<and> (regs = [] \<or> Region r \<in> set regs) \<and>
       (s = ''All'' \<or> Status r = s))"
    by (auto simp: data_processing_filter data_processing_no_auth_filter truncate_add_revenue
        add_revenue_eq_iff)
  then show ?thesis
    using data_processing_filter[of D regs s] data_processing_no_auth_filter[of D prods regs s]
    by blast
qed

theorem view_rows_by_predicate_witness:
  "sample_row ''B'' ''South'' 1 300 ''Pending'' 4 \<in> set sample_abc \<and>
   add_revenue (sample_row ''B'' ''South'' 1 300 ''Pending'' 4)
     \<in> set (data_processing sample_abc [''South''] ''All'') \<and>
   sample_row ''A'' ''North'' 3 100 ''Completed'' 5 \<in> set sample_abc \<and>
   add_revenue (sample_row ''A'' ''North'' 3 100 ''Completed'' 5)
     \<notin> set (data_processing sample_abc [''South''] ''All'')"
proof -
  have b: "sample_row ''B'' ''South'' 1 300 ''Pending'' 4 \<in> set sample_abc"
    by (simp add: sample_abc_def)
  have pb: "([''South''] = [] \<or> Region (sample_row ''B'' ''South'' 1 300 ''Pending'' 4) \<in> set [''South''])
      \<and> (''All'' = ''All'' \<or> Status (sample_row ''B'' ''South'' 1 300 ''Pending'' 4) = ''All'')"
    by (simp add: sample_row_def)
  have a: "sample_row ''A'' ''North'' 3 100 ''Completed'' 5 \<in> set sample_abc"
    by (simp add: sample_abc_def)
  have pa: "\<not> (([''South''] = [] \<or>
          Region (sample_row ''A'' ''North'' 3 100 ''Completed'' 5) \<in> set [''South''])
      \<and> (''All'' = ''All'' \<or> Status (sample_row ''A'' ''North'' 3 100 ''Completed'' 5) = ''All''))"
    by (simp add: sample_row_def)
  show ?thesis
    using view_rows_by_predicate[of sample_abc "[''South'']" "''All''" "[]"] a b pa pb
    by blast
qed

lemma completion_rate_total: "\<exists>q. completion_rate v = Inr q"
  by (cases v) (simp_all add: completion_rate_def true_div_def)

section \<open>Reconciling edits\<close>

text \<open>
  A table of two equal rows labelled 0 and 1, and the snapshot with the same two rows
  labelled 1 and 2 (the first row deleted and an equal row added in the grid): the rows
  are the same in the same order, and the reconciler reports a change.
\<close>

theorem relabelled_snapshot_counterexample:
  "claimed_structural_equality
     (DataFrame [sample_row ''Laptop'' ''North'' 2 50 ''Completed'' 4,
                 sample_row ''Laptop'' ''North'' 2 50 ''Completed'' 4])
     ((DataFrame [sample_row ''Laptop'' ''North'' 2 50 ''Completed'' 4,
                  sample_row ''Laptop'' ''North'' 2 50 ''Completed'' 4])\<lparr>labels := [1, 2]\<rparr>) \<and>
   reconcile
     (DataFrame [sample_row ''Laptop'' ''North'' 2 50 ''Completed'' 4,
                 sample_row ''Laptop'' ''North'' 2 50 ''Completed'' 4])
     ((DataFrame [sample_row ''Laptop'' ''North'' 2 50 ''Completed'' 4,
                  sample_row ''Laptop'' ''North'' 2 50 ''Completed'' 4])\<lparr>labels := [1, 2]\<rparr>)
     = (True,
        (DataFrame [sample_row ''Laptop'' ''North'' 2 50 ''Completed'' 4,
                    sample_row ''Laptop'' ''North'' 2 50 ''Completed'' 4])\<lparr>labels := [1, 2]\<rparr>)"
  by (simp add: claimed_structural_equality_def reconcile_def df_equals_def DataFrame_def)

text \<open>
  C3 (as amended). Reconciling a table with the identical snapshot reports no change and
  keeps the table. No change is reported exactly when the snapshot has the same row
  labels, the same dtypes and the same rows as the table; in every other case, so for
  every snapshot of which a cell, or the number of rows, differs, and also for the same
  rows under other row labels or dtypes, a change is reported and the result is exactly
  the snapshot. In the pass, with the editors shown: no edit in either editor changes
  nothing and the session state stays as it was; an edit in the first editor, or in the
  second when the first has none, makes that snapshot the table of the session, after
  which the pass starts again.
\<close>

theorem reconcile_changed_iff_differs:
  "reconcile D D = (False, D) \<and>
   (reconcile D D' = (False, D) \<longleftrightarrow>
      labels D' = labels D \<and> dtypes D' = dtypes D \<and> body D' = body D) \<and>
   (\<not> (labels D' = labels D \<and> dtypes D' = dtypes D \<and> body D' = body D) \<longrightarrow>
      reconcile D D' = (True, D')) \<and>
   (body D' \<noteq> body D \<longrightarrow> reconcile D D' = (True, D')) \<and>
   snd (reconcile D D') = D' \<and>
   (show_raw_data inp \<and> edited_df inp D = D \<and> edited_df_new inp D = D \<longrightarrow>
      editor_tabs inp D = None \<and> fst (render inp st D v) = st) \<and>
   (show_raw_data inp \<and> edited_df inp D \<noteq> D \<longrightarrow>
      editor_tabs inp D = Some (edited_df inp D) \<and>
      render inp st D v = (st\<lparr>sales_data := Some (edited_df inp D)\<rparr>, Rerun)) \<and>
   (show_raw_data inp \<and> edited_df inp D = D \<and> edited_df_new inp D \<noteq> D \<longrightarrow>
      editor_tabs inp D = Some (edited_df_new inp D) \<and>
      render inp st D v = (st\<lparr>sales_data := Some (edited_df_new inp D)\<rparr>, Rerun))"
proof -
  have eq: "df_equals a b \<longleftrightarrow> a = b" for a b
    by (auto simp: df_equals_def)
  have 1: "reconcile D D = (False, D)"
    by (simp add: reconcile_def eq)
  have 2: "reconcile D D' = (False, D) \<longleftrightarrow>
      labels D' = labels D \<and> dtypes D' = dtypes D \<and> body D' = body D"
    by (simp add: reconcile_def df_equals_def)
  have 3: "\<not> (labels D' = labels D \<and> dtypes D' = dtypes D \<and> body D' = body D) \<longrightarrow>
      reconcile D D' = (True, D')"
    by (simp add: reconcile_def df_equals_def)
  have 4: "body D' \<noteq> body D \<longrightarrow> reconcile D D' = (True, D')"
    by (simp add: reconcile_def df_equals_def)
  have 5: "snd (reconcile D D') = D'"
    by (simp add: reconcile_def eq)
  obtain q where q: "completion_rate v = Inr q"
    using completion_rate_total by blast
  have 6: "show_raw_data inp \<and> edited_df inp D = D \<and> edited_df_new inp D = D \<longrightarrow>
      editor_tabs inp D = None \<and> fst (render inp st D v) = st"
    by (simp add: editor_tabs_def render_def reconcile_def eq q)
  have 7: "show_raw_data inp \<and> edited_df inp D \<noteq> D \<longrightarrow>
      editor_tabs inp D = Some (edited_df inp D) \<and>
      render inp st D v = (st\<lparr>sales_data := Some (edited_df inp D)\<rparr>, Rerun)"
    by (simp add: editor_tabs_def render_def reconcile_def eq q)
  have 8: "show_raw_data inp \<and> edited_df inp D = D \<and> edited_df_new inp D \<noteq> D \<longrightarrow>
      editor_tabs inp D = Some (edited_df_new inp D) \<and>
      render inp st D v = (st\<lparr>sales_data := Some (edited_df_new inp D)\<rparr>, Rerun)"
    by (simp add: editor_tabs_def render_def reconcile_def eq q)
  show ?thesis by (intro conjI 1 2 3 4 5 6 7 8)
qed

theorem reconcile_changed_iff_differs_witness:
  "body (DataFrame [sample_row ''Laptop'' ''North'' 2 50 ''Completed'' 5])
     \<noteq> body (DataFrame [sample_row ''Laptop'' ''North'' 2 50 ''Completed'' 4]) \<and>
   reconcile (DataFrame [sample_row ''Laptop'' ''North'' 2 50 ''Completed'' 4])
             (DataFrame [sample_row ''Laptop'' ''North'' 2 50 ''Completed'' 5])
     = (True, DataFrame [sample_row ''Laptop'' ''North'' 2 50 ''Completed'' 5]) \<and>
   reconcile (DataFrame [sample_row ''Laptop'' ''North'' 2 50 ''Completed'' 4])
             (DataFrame [sample_row ''Laptop'' ''North'' 2 50 ''Completed'' 4])
     = (False, DataFrame [sample_row ''Laptop'' ''North'' 2 50 ''Completed'' 4])"
proof -
  have a: "body (DataFrame [sample_row ''Laptop'' ''North'' 2 50 ''Completed'' 5])
     \<noteq> body (DataFrame [sample_row ''Laptop'' ''North'' 2 50 ''Completed'' 4])"
    by (simp add: DataFrame_def sample_row_def)
  show ?thesis
    using a reconcile_changed_iff_differs
      [of "DataFrame [sample_row ''Laptop'' ''North'' 2 50 ''Completed'' 4]"
          "DataFrame [sample_row ''Laptop'' ''North'' 2 50 ''Completed'' 5]"]
      reconcile_changed_iff_differs
      [of "DataFrame [sample_row ''Laptop'' ''North'' 2 50 ''Completed'' 4]"]
    by blast
qed

section \<open>Key figures\<close>

text \<open>
  C4. The completion rate of a view is 100 times the number of Completed rows divided by
  the number of rows when the view has rows, and 0 when it has none; computing it never
  raises ZeroDivisionError.
\<close>

theorem completion_rate_value:
  "completion_rate v =
     Inr (if v = [] then 0
          else 100 * of_nat (length (filter (\<lambda>r. Status r = ''Completed'') v))
                 / of_nat (length v)) \<and>
   completion_rate v \<noteq> Inl ZeroDivisionError"
  by (cases v) (simp_all add: completion_rate_def true_div_def)

theorem completion_rate_value_witness:
  "data_processing sample_abc [] ''All'' \<noteq> [] \<and>
   completion_rate (data_processing sample_abc [] ''All'') = Inr (100 / 3) \<and>
   completion_rate (data_processing sample_abc [] ''Completed'') = Inr 100 \<and>
   completion_rate (data_processing [] [] ''All'') = Inr 0"
proof -
  have a: "data_processing sample_abc [] ''All'' \<noteq> []" by code_simp
  have b: "(100::rat) * of_nat (length (filter (\<lambda>r. Status r = ''Completed'')
              (data_processing sample_abc [] ''All'')))
             / of_nat (length (data_processing sample_abc [] ''All'')) = 100 / 3"
    by code_simp
  have c: "data_processing sample_abc [] ''Completed'' \<noteq> []" by code_simp
  have d: "(100::rat) * of_nat (length (filter (\<lambda>r. Status r = ''Completed'')
              (data_processing sample_abc [] ''Completed'')))
             / of_nat (length (data_processing sample_abc [] ''Completed'')) = 100"
    by code_simp
  have e: "data_processing [] [] ''All'' = []" by code_simp
  show ?thesis
    using completion_rate_value[of "data_processing sample_abc [] ''All''"]
      completion_rate_value[of "data_processing sample_abc [] ''Completed''"]
      completion_rate_value[of "data_processing [] [] ''All''"] a b c d e
    by simp
qed

text \<open>For a view with rows the average rating is the arithmetic mean of the ratings.\<close>

lemma avg_rating_nonempty:
  "v \<noteq> [] \<Longrightarrow> avg_rating v = Fin (of_int (sum_list (map Rating v)) / of_nat (length v))"
  by (simp add: avg_rating_def series_mean_def)

text \<open>
  C7 (the code at the failing input). The table has one Pending row and the status
  filter is Completed, so the view is empty: the average rating is NaN, and the pass
  hands that NaN to the rating card, while the completion rate next to it is 0.
\<close>

theorem avg_rating_nan_on_empty_view:
  "avg_rating (data_processing [sample_row ''Laptop'' ''North'' 2 50 ''Pending'' 4]
                 [''North''] ''Completed'') = NaN \<and>
   snd (main [] sample_inputs
          \<lparr>sales_data = Some (DataFrame [sample_row ''Laptop'' ''North'' 2 50 ''Pending'' 4]),
           authentication_status = Some True\<rparr>)
     = Rendered \<lparr>n_transactions = 0, metric_total_revenue = 0, metric_total_units = 0,
                 metric_avg_rating = NaN, metric_completion_rate = 0, top5 = [],
                 csv = None\<rparr>"
  by code_simp

section \<open>Revenue and the canonical frame\<close>

lemma data_processing_store_frame:
  assumes "c < length h"
  shows "\<exists>v h'. data_processing_store h c regs s = (v, h') \<and> length h \<le> v \<and> v < length h' \<and>
           length h \<le> length h' \<and> take (length h) h' = h"
  using assms
  by (auto simp: data_processing_store_def new_object_def nth_append)

lemma data_processing_no_auth_store_frame:
  assumes "c < length h"
  shows "\<exists>v h'. data_processing_no_auth_store h c prods regs s = (v, h') \<and> length h \<le> v \<and>
           v < length h' \<and> length h \<le> length h' \<and> take (length h) h' = h"
  using assms
  by (auto simp: data_processing_no_auth_store_def new_object_def nth_append)

text \<open>The object that the store version ends with holds the view of the value version.\<close>

lemma data_processing_store_view:
  assumes "c < length h" "h ! c = Cols7 D"
  shows "snd (data_processing_store h c regs s) ! fst (data_processing_store h c regs s)
           = Cols8 (data_processing D regs s)"
  using assms
  by (auto simp: data_processing_store_def data_processing_def new_object_def nth_append)

lemma data_processing_no_auth_store_view:
  assumes "c < length h" "h ! c = Cols7 D"
  shows "snd (data_processing_no_auth_store h c prods regs s)
           ! fst (data_processing_no_auth_store h c prods regs s)
           = Cols8 (data_processing_no_auth D prods regs s)"
  using assms
  by (auto simp: data_processing_no_auth_store_def data_processing_no_auth_def new_object_def
      nth_append)

lemma old_cells_kept:
  assumes "take (length h) h' = h" "a < length h"
  shows "h' ! a = h ! a"
  by (metis assms nth_take)

lemma set_revenue_cols8:
  "\<exists>vs. set_revenue f = Cols8 vs \<and>
     (\<forall>v \<in> set vs. Revenue v = of_int (Units_Sold v) * Unit_Price v)"
  by (cases f) (auto simp: add_revenue_def row.truncate_def)

text \<open>
  C5. Every row of the view has Revenue equal to its Units Sold times its Unit Price, in
  both variants. Assigning the Revenue column computes it anew whatever the frame held
  before. The canonical frame, which has the seven columns only, still has exactly those
  after the pass, and the frame with Revenue is the other object that the pass returns.
\<close>

theorem revenue_is_units_times_price:
  "(\<forall>v \<in> set (data_processing D regs s). Revenue v = of_int (Units_Sold v) * Unit_Price v) \<and>
   (\<forall>v \<in> set (data_processing_no_auth D prods regs s).
       Revenue v = of_int (Units_Sold v) * Unit_Price v) \<and>
   (\<exists>vs. set_revenue f = Cols8 vs \<and>
       (\<forall>v \<in> set vs. Revenue v = of_int (Units_Sold v) * Unit_Price v)) \<and>
   (c < length h \<and> h ! c = Cols7 D \<longrightarrow>
       snd (data_processing_store h c regs s) ! c = Cols7 D \<and>
       snd (data_processing_no_auth_store h c prods regs s) ! c = Cols7 D \<and>
       snd (data_processing_store h c regs s) ! fst (data_processing_store h c regs s)
         = Cols8 (data_processing D regs s) \<and>
       snd (data_processing_no_auth_store h c prods regs s)
           ! fst (data_processing_no_auth_store h c prods regs s)
         = Cols8 (data_processing_no_auth D prods regs s))"
proof -
  have 1: "\<forall>v \<in> set (data_processing D regs s). Revenue v = of_int (Units_Sold v) * Unit_Price v"
    by (auto simp: data_processing_filter add_revenue_cols)
  have 2: "\<forall>v \<in> set (data_processing_no_auth D prods regs s).
       Revenue v = of_int (Units_Sold v) * Unit_Price v"
    by (auto simp: data_processing_no_auth_filter add_revenue_cols)
  have 3: "snd (data_processing_store h c regs s) ! c = Cols7 D"
    if "c < length h" "h ! c = Cols7 D"
    using data_processing_store_frame[OF that(1), of regs s] that old_cells_kept by fastforce
  have 4: "snd (data_processing_no_auth_store h c prods regs s) ! c = Cols7 D"
    if "c < length h" "h ! c = Cols7 D"
    using data_processing_no_auth_store_frame[OF that(1), of prods regs s] that old_cells_kept
    by fastforce
  show ?thesis
    using 1 2 3 4 set_revenue_cols8 data_processing_store_view data_processing_no_auth_store_view
    by simp
qed

theorem revenue_is_units_times_price_witness:
  "add_revenue (sample_row ''A'' ''North'' 3 100 ''Completed'' 5)
     \<in> set (data_processing sample_abc [''North''] ''All'') \<and>
   Revenue (add_revenue (sample_row ''A'' ''North'' 3 100 ''Completed'' 5)) = 300 \<and>
   (0::nat) < length [Cols7 sample_abc] \<and> [Cols7 sample_abc] ! 0 = Cols7 sample_abc \<and>
   snd (data_processing_store [Cols7 sample_abc] 0 [''North''] ''All'') ! 0 = Cols7 sample_abc"
proof -
  have a: "add_revenue (sample_row ''A'' ''North'' 3 100 ''Completed'' 5)
     \<in> set (data_processing sample_abc [''North''] ''All'')" by code_simp
  have b: "(of_int (Units_Sold (add_revenue (sample_row ''A'' ''North'' 3 100 ''Completed'' 5)))
      * Unit_Price (add_revenue (sample_row ''A'' ''North'' 3 100 ''Completed'' 5)) :: rat) = 300"
    by code_simp
  have c: "(0::nat) < length [Cols7 sample_abc] \<and> [Cols7 sample_abc] ! 0 = Cols7 sample_abc"
    by simp
  show ?thesis
    using a b c revenue_is_units_times_price[where D = sample_abc and regs = "[''North'']"
        and s = "''All''" and c = 0 and h = "[Cols7 sample_abc]"]
    by metis
qed

text \<open>
  C8. The pass leaves every object that existed before it as it was, the canonical frame
  among them; the view is a new object, different from the canonical frame, so that
  writing anything into the view leaves the canonical frame as it was.
\<close>

theorem canonical_frame_untouched:
  assumes "c < length h"
  shows "(case data_processing_store h c regs s of (v, h') \<Rightarrow>
            v \<noteq> c \<and> v < length h' \<and> h' ! c = h ! c \<and> (\<forall>a < length h. h' ! a = h ! a) \<and>
            (\<forall>f. h'[v := f] ! c = h ! c)) \<and>
         (case data_processing_no_auth_store h c prods regs s of (v, h') \<Rightarrow>
            v \<noteq> c \<and> v < length h' \<and> h' ! c = h ! c \<and> (\<forall>a < length h. h' ! a = h ! a) \<and>
            (\<forall>f. h'[v := f] ! c = h ! c))"
proof -
  obtain v h' where a: "data_processing_store h c regs s = (v, h')" "length h \<le> v"
    "v < length h'" "take (length h) h' = h"
    using data_processing_store_frame[OF assms] by blast
  obtain w k' where b: "data_processing_no_auth_store h c prods regs s = (w, k')"
    "length h \<le> w" "w < length k'" "take (length h) k' = h"
    using data_processing_no_auth_store_frame[OF assms] by blast
  have "v \<noteq> c" "w \<noteq> c" using a b assms by auto
  moreover have "\<forall>a < length h. h' ! a = h ! a" "\<forall>a < length h. k' ! a = h ! a"
    using a(4) b(4) old_cells_kept by blast+
  ultimately show ?thesis using a b assms by simp
qed

theorem canonical_frame_untouched_witness:
  "(0::nat) < length [Cols7 sample_abc] \<and>
   fst (data_processing_store [Cols7 sample_abc] 0 [''North''] ''Completed'') = 3 \<and>
   snd (data_processing_store [Cols7 sample_abc] 0 [''North''] ''Completed'') ! 0
     = Cols7 sample_abc \<and>
   (snd (data_processing_store [Cols7 sample_abc] 0 [''North''] ''Completed''))
      [fst (data_processing_store [Cols7 sample_abc] 0 [''North''] ''Completed'') := Cols8 []] ! 0
     = Cols7 sample_abc"
proof -
  have a: "(0::nat) < length [Cols7 sample_abc]" by simp
  have b: "fst (data_processing_store [Cols7 sample_abc] 0 [''North''] ''Completed'') = 3"
    by code_simp
  show ?thesis
    using a b canonical_frame_untouched[OF a, of "[''North'']" "''Completed''" "[]"]
    by (auto split: prod.splits)
qed

section \<open>The gate\<close>

lemma render_keeps_table_present:
  "sales_data st \<noteq> None \<Longrightarrow> sales_data (fst (render inp st d v)) \<noteq> None"
  by (auto simp: render_def split: sum.splits option.splits)

lemma main_initialises_table: "sales_data (fst (main seed inp st)) \<noteq> None"
proof (cases "radio status_options (status_choice inp)")
  case (Inl e)
  then show ?thesis by (simp add: main_def Let_def)
next
  case (Inr status_filter)
  then show ?thesis
    by (simp add: main_def Let_def render_keeps_table_present del: not_None_eq)
qed

text \<open>
  C9. With the status True the script runs \<open>main\<close>, which puts a table into the session.
  With the status False it shows the error message and with the status None the warning,
  both fixed, and the session state, the table included, is what it was. \<open>main\<close> runs
  exactly when the status is True.
\<close>

theorem gate_runs_main_only_when_granted:
  "(authentication_status st = Some True \<longrightarrow>
      script seed inp st = (fst (main seed inp st), Main_ran (snd (main seed inp st))) \<and>
      sales_data (fst (script seed inp st)) \<noteq> None) \<and>
   (authentication_status st = Some False \<longrightarrow>
      script seed inp st = (st, St_error ''Username/password is incorrect'')) \<and>
   (authentication_status st = None \<longrightarrow>
      script seed inp st = (st, St_warning ''Please enter your username and password'')) \<and>
   ((\<exists>out. snd (script seed inp st) = Main_ran out) \<longleftrightarrow> authentication_status st = Some True)"
proof -
  have "script seed inp st = (fst (main seed inp st), Main_ran (snd (main seed inp st)))"
    if "authentication_status st = Some True"
    using that by (simp add: script_def split: prod.splits)
  moreover have "script seed inp st = (st, St_error ''Username/password is incorrect'')"
    if "authentication_status st = Some False"
    using that by (simp add: script_def)
  moreover have
    "script seed inp st = (st, St_warning ''Please enter your username and password'')"
    if "authentication_status st = None"
    using that by (simp add: script_def)
  moreover have "authentication_status st = Some True \<or> authentication_status st = Some False
      \<or> authentication_status st = None"
    by (cases "authentication_status st") auto
  ultimately show ?thesis
    using main_initialises_table[of seed inp st] by auto
qed

theorem gate_runs_main_only_when_granted_witness:
  "authentication_status \<lparr>sales_data = None, authentication_status = Some False\<rparr> = Some False \<and>
   script sample_abc sample_inputs \<lparr>sales_data = None, authentication_status = Some False\<rparr>
     = (\<lparr>sales_data = None, authentication_status = Some False\<rparr>,
        St_error ''Username/password is incorrect'') \<and>
   authentication_status \<lparr>sales_data = None, authentication_status = None\<rparr> = None \<and>
   script sample_abc sample_inputs \<lparr>sales_data = None, authentication_status = None\<rparr>
     = (\<lparr>sales_data = None, authentication_status = None\<rparr>,
        St_warning ''Please enter your username and password'') \<and>
   authentication_status \<lparr>sales_data = None, authentication_status = Some True\<rparr> = Some True \<and>
   sales_data (fst (script sample_abc sample_inputs
                      \<lparr>sales_data = None, authentication_status = Some True\<rparr>)) \<noteq> None"
proof -
  have a: "script sample_abc sample_inputs \<lparr>sales_data = None, authentication_status = Some False\<rparr>
     = (\<lparr>sales_data = None, authentication_status = Some False\<rparr>,
        St_error ''Username/password is incorrect'')"
    using gate_runs_main_only_when_granted
      [of "\<lparr>sales_data = None, authentication_status = Some False\<rparr>" sample_abc sample_inputs]
    by simp
  have b: "script sample_abc sample_inputs \<lparr>sales_data = None, authentication_status = None\<rparr>
     = (\<lparr>sales_data = None, authentication_status = None\<rparr>,
        St_warning ''Please enter your username and password'')"
    using gate_runs_main_only_when_granted
      [of "\<lparr>sales_data = None, authentication_status = None\<rparr>" sample_abc sample_inputs]
    by simp
  have t: "authentication_status \<lparr>sales_data = None, authentication_status = Some True\<rparr>
             = Some True"
    by simp
  have c: "sales_data (fst (script sample_abc sample_inputs
                      \<lparr>sales_data = None, authentication_status = Some True\<rparr>)) \<noteq> None"
    using gate_runs_main_only_when_granted
      [of "\<lparr>sales_data = None, authentication_status = Some True\<rparr>" sample_abc sample_inputs] t
    by blast
  show ?thesis using a b c by (simp del: not_None_eq)
qed

section \<open>The status filter\<close>

text \<open>
  C10. Whatever the radio widget returns is All, Completed or Pending, never Cancelled.
  So when a view, of either variant, has a Cancelled row, the status filter is All: a
  view of Cancelled rows comes from the other filters, not from a status filter.
\<close>

theorem status_filter_values:
  assumes "radio status_options i = Inr s"
  shows "s \<in> {''All'', ''Completed'', ''Pending''} \<and> s \<noteq> ''Cancelled'' \<and>
         (v \<in> set (data_processing D regs s) \<and> Status v = ''Cancelled'' \<longrightarrow> s = ''All'') \<and>
         (w \<in> set (data_processing_no_auth D prods regs s) \<and> Status w = ''Cancelled''
            \<longrightarrow> s = ''All'')"
proof -
  have "i < 3" using assms by (auto simp: radio_def status_options_def split: if_splits)
  then have "i = 0 \<or> i = 1 \<or> i = 2" by auto
  then have s: "s \<in> {''All'', ''Completed'', ''Pending''}"
    using assms by (auto simp: radio_def status_options_def)
  then show ?thesis
    by (auto simp: data_processing_filter data_processing_no_auth_filter add_revenue_cols)
qed

theorem status_filter_values_witness:
  "radio status_options 0 = Inr ''All'' \<and>
   ''All'' \<in> {''All'', ''Completed'', ''Pending''} \<and> ''All'' \<noteq> ''Cancelled'' \<and>
   add_revenue (sample_row ''C'' ''North'' 2 50 ''Cancelled'' 3)
     \<in> set (data_processing sample_abc [''North''] ''All'') \<and>
   Status (add_revenue (sample_row ''C'' ''North'' 2 50 ''Cancelled'' 3)) = ''Cancelled'' \<and>
   radio status_options 2 = Inr ''Pending'' \<and>
   ''Pending'' \<in> {''All'', ''Completed'', ''Pending''} \<and> ''Pending'' \<noteq> ''Cancelled'' \<and>
   add_revenue (sample_row ''C'' ''North'' 2 50 ''Cancelled'' 3)
     \<notin> set (data_processing sample_abc [''North''] ''Pending'')"
proof -
  have a: "radio status_options 0 = Inr ''All''" by code_simp
  have b: "add_revenue (sample_row ''C'' ''North'' 2 50 ''Cancelled'' 3)
     \<in> set (data_processing sample_abc [''North''] ''All'')" by code_simp
  have c: "Status (add_revenue (sample_row ''C'' ''North'' 2 50 ''Cancelled'' 3)) = ''Cancelled''"
    by code_simp
  have d: "radio status_options 2 = Inr ''Pending''" by code_simp
  have e: "''Pending'' \<noteq> ''All''" by simp
  have f: "add_revenue (sample_row ''C'' ''North'' 2 50 ''Cancelled'' 3)
     \<notin> set (data_processing sample_abc [''North''] ''Pending'')"
    using status_filter_values[OF d,
        of "add_revenue (sample_row ''C'' ''North'' 2 50 ''Cancelled'' 3)" sample_abc "[''North'']"]
      c e by blast
  have g: "''All'' \<in> {''All'', ''Completed'', ''Pending''} \<and> ''All'' \<noteq> ''Cancelled''"
    using status_filter_values[OF a] by blast
  have h: "''Pending'' \<in> {''All'', ''Completed'', ''Pending''} \<and> ''Pending'' \<noteq> ''Cancelled''"
    using status_filter_values[OF d] by blast
  show ?thesis using a b c d f g h by blast
qed

section \<open>Top products\<close>

lemma set_sort_values_descending: "set (sort_values_descending tie xs) = set xs"
  by (simp add: sort_values_descending_def)

lemma length_sort_values_descending: "length (sort_values_descending tie xs) = length xs"
  by (simp add: sort_values_descending_def)

lemma sort_values_descending_order:
  "sorted_wrt (\<lambda>a b. snd b \<le> snd a) (sort_values_descending tie xs)"
proof -
  have "sorted (map (\<lambda>e. - snd e) (sort_values_descending tie xs))"
    unfolding sort_values_descending_def by (rule sorted_sort_key)
  then have "sorted_wrt (\<lambda>a b. - snd a \<le> - snd b) (sort_values_descending tie xs)"
    by (simp add: sorted_map)
  then show ?thesis
    by (rule sorted_wrt_mono_rel[rotated]) simp
qed

lemma distinct_keys_sort_values_descending:
  assumes "distinct (map fst xs)"
  shows "distinct (map fst (sort_values_descending tie xs))"
proof -
  have "distinct xs" "inj_on fst (set xs)" using assms by (simp_all add: distinct_map)
  then have "distinct (sort_values_descending tie xs)"
    "inj_on fst (set (sort_values_descending tie xs))"
    by (simp_all add: sort_values_descending_def)
  then show ?thesis by (simp add: distinct_map)
qed

lemma groupby_keys: "map fst (groupby_product_revenue_sum df) = sort (remdups (map Product df))"
  by (simp add: groupby_product_revenue_sum_def comp_def)

lemma groupby_keys_distinct: "distinct (map fst (groupby_product_revenue_sum df))"
  by (simp add: groupby_keys)

lemma length_groupby: "length (groupby_product_revenue_sum df) = card (Product ` set df)"
proof -
  have "length (groupby_product_revenue_sum df) = length (remdups (map Product df))"
    by (simp add: groupby_product_revenue_sum_def)
  also have "\<dots> = card (set (map Product df))" by (rule length_remdups_card_conv)
  finally show ?thesis by simp
qed

lemma groupby_entries:
  "e \<in> set (groupby_product_revenue_sum df) \<Longrightarrow>
     fst e \<in> Product ` set df \<and>
     snd e = sum_list (map Revenue (filter (\<lambda>r. Product r = fst e) df))"
  by (auto simp: groupby_product_revenue_sum_def)

lemma top_products_order: "sorted_wrt (\<lambda>a b. snd b \<le> snd a) (top_products tie n df)"
  unfolding top_products_def by (rule sorted_wrt_take[OF sort_values_descending_order])

lemma not_in_top_if_n_above:
  assumes "e \<in> set (top_products tie n df)"
  shows "card {q \<in> set (groupby_product_revenue_sum df). snd e < snd q} < n"
proof -
  let ?S = "sort_values_descending tie (groupby_product_revenue_sum df)"
  let ?T = "take n ?S"
  have T: "e \<in> set ?T" using assms by (simp add: top_products_def)
  have "sorted_wrt (\<lambda>a b. snd b \<le> snd a) (?T @ drop n ?S)"
    using sort_values_descending_order by simp
  then have low: "\<forall>x \<in> set ?T. \<forall>y \<in> set (drop n ?S). snd y \<le> snd x"
    unfolding sorted_wrt_append by blast
  have "{q \<in> set (groupby_product_revenue_sum df). snd e < snd q} \<subseteq> set ?T - {e}"
  proof
    fix q assume "q \<in> {q \<in> set (groupby_product_revenue_sum df). snd e < snd q}"
    then have q: "q \<in> set ?S" "snd e < snd q" by (simp_all add: set_sort_values_descending)
    have "set ?S = set ?T \<union> set (drop n ?S)" by (metis append_take_drop_id set_append)
    then have "q \<in> set ?T \<or> q \<in> set (drop n ?S)" using q(1) by auto
    moreover have "q \<notin> set (drop n ?S)"
    proof
      assume "q \<in> set (drop n ?S)"
      then have "snd q \<le> snd e" using low T by blast
      then show False using q(2) by simp
    qed
    ultimately have "q \<in> set ?T" by blast
    then show "q \<in> set ?T - {e}" using q(2) by auto
  qed
  then have "card {q \<in> set (groupby_product_revenue_sum df). snd e < snd q}
      \<le> card (set ?T - {e})"
    by (simp add: card_mono)
  also have "\<dots> < card (set ?T)" using T by (intro card_Diff1_less) simp_all
  also have "\<dots> \<le> length ?T" by (rule card_length)
  also have "\<dots> \<le> n" by simp
  finally show ?thesis .
qed

lemma position_in_distinct:
  assumes "distinct ks" "i < length ks"
  shows "length (takeWhile (\<lambda>k. k \<noteq> ks ! i) ks) = i"
proof -
  have "takeWhile (\<lambda>k. k \<noteq> ks ! i) ks = take i ks"
  proof (rule takeWhile_eq_take_P_nth)
    fix j assume "j < i" "j < length ks"
    then show "ks ! j \<noteq> ks ! i" using assms by (simp add: nth_eq_iff_index_eq)
  next
    show "\<not> ks ! i \<noteq> ks ! i" by simp
  qed
  then show ?thesis using assms by simp
qed

lemma positions_ascending:
  assumes "distinct ks"
  shows "map (\<lambda>p. length (takeWhile (\<lambda>k. k \<noteq> p) ks)) ks = [0..<length ks]"
proof (rule nth_equalityI)
  show "length (map (\<lambda>p. length (takeWhile (\<lambda>k. k \<noteq> p) ks)) ks) = length [0..<length ks]"
    by simp
next
  fix i assume "i < length (map (\<lambda>p. length (takeWhile (\<lambda>k. k \<noteq> p) ks)) ks)"
  then have "i < length ks" by simp
  then show "map (\<lambda>p. length (takeWhile (\<lambda>k. k \<noteq> p) ks)) ks ! i = [0..<length ks] ! i"
    using position_in_distinct[OF assms] by simp
qed

lemma sort_key_to_arrangement:
  assumes "distinct s" "distinct t" "set t = set s" "sorted (map f t)" "distinct (map f t)"
  shows "sort_key f s = t"
proof -
  have inj: "inj_on f (set t)" using assms(5) by (simp add: distinct_map)
  have "sorted (map f (sort_key f s))" by (rule sorted_sort_key)
  moreover have "distinct (map f (sort_key f s))"
    using assms(1,3) inj by (simp add: distinct_map)
  moreover have "set (map f (sort_key f s)) = set (map f t)" using assms(3) by simp
  ultimately have "map f (sort_key f s) = map f t"
    using assms(4,5) by (intro sorted_distinct_set_unique)
  moreover have "inj_on f (set (sort_key f s) \<union> set t)" using inj assms(3) by simp
  ultimately show ?thesis by (simp add: inj_on_map_eq_map)
qed

text \<open>
  The rank leaves every order open that a sort by descending value can give: each
  arrangement of a series of distinct keys by descending value is the result for the rank
  that numbers the keys as they stand in that arrangement.
\<close>

lemma every_descending_arrangement:
  assumes "distinct (map fst s)" "set t = set s" "length t = length s"
    "sorted_wrt (\<lambda>a b. snd b \<le> snd a) t"
  shows "\<exists>tie. sort_values_descending tie s = t"
proof -
  let ?tie = "\<lambda>p. length (takeWhile (\<lambda>k. k \<noteq> p) (map fst t))"
  have ds: "distinct s" and inj: "inj_on fst (set s)"
    using assms(1) by (simp_all add: distinct_map)
  have "card (set t) = length t" using assms(2,3) ds by (simp add: distinct_card)
  then have dt: "distinct t" by (rule card_distinct)
  have dk: "distinct (map fst t)" using dt inj assms(2) by (simp add: distinct_map)
  have pos: "map (\<lambda>e. ?tie (fst e)) t = [0..<length t]"
    using positions_ascending[OF dk] by (simp add: comp_def)
  have "sort_key (\<lambda>e. ?tie (fst e)) s = t"
    by (rule sort_key_to_arrangement[OF ds dt assms(2)]) (simp_all add: pos)
  moreover have "sorted (map (\<lambda>e. - snd e) t)"
    unfolding sorted_map by (rule sorted_wrt_mono_rel[OF _ assms(4)]) simp
  ultimately have "sort_values_descending ?tie s = t"
    by (simp add: sort_values_descending_def sort_key_id_if_sorted)
  then show ?thesis by blast
qed

text \<open>
  The product Mouse comes first in the view and Laptop second, both with revenue 300.
  With equal totals left in the order of the grouped series, the table of top products
  lists Laptop first, against the order of first appearance. The view with the two rows
  exchanged has the same grouped series, so that the sort is given the same series for
  both views, whatever order it leaves among equal totals.
\<close>

theorem tie_order_counterexample:
  "map Product (data_processing [sample_row ''Mouse'' ''North'' 3 100 ''Completed'' 4,
                                 sample_row ''Laptop'' ''North'' 1 300 ''Completed'' 4] [] ''All'')
     = [''Mouse'', ''Laptop''] \<and>
   top_products keep_order 5
       (data_processing [sample_row ''Mouse'' ''North'' 3 100 ''Completed'' 4,
                         sample_row ''Laptop'' ''North'' 1 300 ''Completed'' 4] [] ''All'')
     = [(''Laptop'', 300), (''Mouse'', 300)] \<and>
   \<not> claimed_tie_break
       (data_processing [sample_row ''Mouse'' ''North'' 3 100 ''Completed'' 4,
                         sample_row ''Laptop'' ''North'' 1 300 ''Completed'' 4] [] ''All'')
       [(''Laptop'', 300), (''Mouse'', 300)] \<and>
   groupby_product_revenue_sum
       (data_processing [sample_row ''Mouse'' ''North'' 3 100 ''Completed'' 4,
                         sample_row ''Laptop'' ''North'' 1 300 ''Completed'' 4] [] ''All'')
     = groupby_product_revenue_sum
       (data_processing [sample_row ''Laptop'' ''North'' 1 300 ''Completed'' 4,
                         sample_row ''Mouse'' ''North'' 3 100 ''Completed'' 4] [] ''All'')"
  by code_simp

text \<open>
  C6 (as amended). For every order that the sort leaves among equal totals,
  \<open>top_products n\<close> gives \<open>n\<close> entries, or as many as the view has products when these
  are fewer, in descending order of total revenue; each entry is a product of the view,
  no product twice, with the sum of its revenues; an entry that has \<open>n\<close> or more entries
  of strictly greater total is not included. Nothing is promised about the order of
  entries of equal total.
\<close>

theorem top_products_descending:
  "length (top_products tie n df) = min n (card (Product ` set df)) \<and>
   length (top_products tie n df) \<le> n \<and>
   sorted_wrt (\<lambda>a b. snd b \<le> snd a) (top_products tie n df) \<and>
   distinct (map fst (top_products tie n df)) \<and>
   (\<forall>e \<in> set (top_products tie n df).
       fst e \<in> Product ` set df \<and>
       snd e = sum_list (map Revenue (filter (\<lambda>r. Product r = fst e) df))) \<and>
   (\<forall>e \<in> set (groupby_product_revenue_sum df).
       n \<le> card {q \<in> set (groupby_product_revenue_sum df). snd e < snd q}
       \<longrightarrow> e \<notin> set (top_products tie n df))"
proof -
  have 0: "length (top_products tie n df) = min n (card (Product ` set df))"
    by (simp add: top_products_def length_sort_values_descending length_groupby min.commute)
  have 1: "length (top_products tie n df) \<le> n" by (simp add: top_products_def)
  have 2: "sorted_wrt (\<lambda>a b. snd b \<le> snd a) (top_products tie n df)"
    by (rule top_products_order)
  have "distinct (map fst (sort_values_descending tie (groupby_product_revenue_sum df)))"
    by (rule distinct_keys_sort_values_descending[OF groupby_keys_distinct])
  then have 3: "distinct (map fst (top_products tie n df))"
    unfolding top_products_def take_map[symmetric] by (rule distinct_take)
  have 4: "\<forall>e \<in> set (top_products tie n df).
       fst e \<in> Product ` set df \<and>
       snd e = sum_list (map Revenue (filter (\<lambda>r. Product r = fst e) df))"
  proof
    fix e assume "e \<in> set (top_products tie n df)"
    then have "e \<in> set (sort_values_descending tie (groupby_product_revenue_sum df))"
      unfolding top_products_def by (rule in_set_takeD)
    then have "e \<in> set (groupby_product_revenue_sum df)"
      by (simp add: set_sort_values_descending)
    then show "fst e \<in> Product ` set df \<and>
       snd e = sum_list (map Revenue (filter (\<lambda>r. Product r = fst e) df))"
      by (rule groupby_entries)
  qed
  have 5: "\<forall>e \<in> set (groupby_product_revenue_sum df).
       n \<le> card {q \<in> set (groupby_product_revenue_sum df). snd e < snd q}
       \<longrightarrow> e \<notin> set (top_products tie n df)"
  proof (intro ballI impI notI)
    fix e assume "n \<le> card {q \<in> set (groupby_product_revenue_sum df). snd e < snd q}"
      and "e \<in> set (top_products tie n df)"
    then show False using not_in_top_if_n_above[of e tie n df] by simp
  qed
  show ?thesis by (intro conjI 0 1 2 3 4 5)
qed

theorem top_products_descending_witness:
  "top_products keep_order 2 (data_processing sample_abc [] ''All'')
     = [(''A'', 300), (''B'', 300)] \<and>
   (''C'', 100) \<in> set (groupby_product_revenue_sum (data_processing sample_abc [] ''All'')) \<and>
   2 \<le> card {q \<in> set (groupby_product_revenue_sum (data_processing sample_abc [] ''All'')).
                snd (''C'', 100::rat) < snd q} \<and>
   (''C'', 100) \<notin> set (top_products keep_order 2 (data_processing sample_abc [] ''All'')) \<and>
   top_products sample_rank 5 (data_processing sample_abcd [] ''All'')
     = [(''D'', 200), (''C'', 200), (''B'', 100), (''A'', 100)] \<and>
   top_products keep_order 5 (data_processing sample_abcd [] ''All'')
     = [(''C'', 200), (''D'', 200), (''A'', 100), (''B'', 100)] \<and>
   length (top_products sample_rank 5 (data_processing sample_abcd [] ''All'')) = 4"
proof -
  have a: "top_products keep_order 2 (data_processing sample_abc [] ''All'')
      = [(''A'', 300), (''B'', 300)]"
    by code_simp
  have b: "(''C'', 100) \<in> set (groupby_product_revenue_sum (data_processing sample_abc [] ''All''))"
    by code_simp
  have c: "2 \<le> card {q \<in> set (groupby_product_revenue_sum (data_processing sample_abc [] ''All'')).
                snd (''C'', 100::rat) < snd q}"
    by code_simp
  have d: "top_products sample_rank 5 (data_processing sample_abcd [] ''All'')
     = [(''D'', 200), (''C'', 200), (''B'', 100), (''A'', 100)]"
    by code_simp
  have e: "top_products keep_order 5 (data_processing sample_abcd [] ''All'')
     = [(''C'', 200), (''D'', 200), (''A'', 100), (''B'', 100)]"
    by code_simp
  have f: "min 5 (card (Product ` set (data_processing sample_abcd [] ''All''))) = 4"
    by code_simp
  have "\<forall>e \<in> set (groupby_product_revenue_sum (data_processing sample_abc [] ''All'')).
       2 \<le> card {q \<in> set (groupby_product_revenue_sum (data_processing sample_abc [] ''All'')).
                   snd e < snd q}
       \<longrightarrow> e \<notin> set (top_products keep_order 2 (data_processing sample_abc [] ''All''))"
    using top_products_descending[of keep_order 2 "data_processing sample_abc [] ''All''"]
    by blast
  then have g: "(''C'', 100) \<notin> set (top_products keep_order 2 (data_processing sample_abc [] ''All''))"
    using b c by blast
  have h: "length (top_products sample_rank 5 (data_processing sample_abcd [] ''All'')) = 4"
    using top_products_descending[of sample_rank 5 "data_processing sample_abcd [] ''All''"] f
    by simp
  show ?thesis by (intro conjI a b c g d e h)
qed

end
